theory Spec2Isabelle
  imports Complex_Main "HOL-Library.AList" "HOL-Library.Char_ord" "HOL-Library.List_Lexorder"
begin

section \<open>The position ledger and the take-profit / stop-loss rules of test01.py\<close>

text \<open>
  How the pandas and numpy calls of the source are read.
  \<^item> A DataFrame with the six ledger columns is a list of rows, in row order. A number of
    a row or of a Series is a \<open>cell\<close>: a value, or NaN.
  \<^item> A Series indexed by symbol (a price snapshot, a decision) is an association list in
    index order. \<open>pd.Series(index=state.index)\<close> is the Series that carries the index of
    \<open>state\<close> and NaN at every label; \<open>state[symbol]\<close> raises KeyError for a label that is
    absent.
  \<^item> \<open>pos.groupby('symbol')\<close> yields one group per symbol, in ascending symbol order, each
    group holding the rows of its symbol in ledger order.
  \<^item> \<open>group_by.agg({'transaction price': 'mean'})\<close> is a frame indexed by symbol with the
    single column \<open>transaction price\<close>, the mean of the column over each group, NaN
    entries left out.
  \<^item> \<open>group_by.apply(max, column='time')\<close> calls \<open>max(group, column='time')\<close> for every
    group. The builtin \<open>max\<close> takes no keyword \<open>column\<close> and raises TypeError. Without a
    group nothing is called, and the result is a frame without rows.
  \<^item> \<open>average_transaction_price['symbol']\<close> asks the frame of the means for a column
    \<open>symbol\<close>; the symbols are its index, and the lookup raises KeyError.
  \<^item> \<open>position.append(row, ignore_index=True)\<close> returns a new frame and leaves
    \<open>position\<close> as it is; the source drops the result. \<open>position.iloc[-1, k] = v\<close> stores
    \<open>v\<close> in column \<open>k\<close> of the last row of \<open>position\<close>.
  \<^item> The arithmetic of \<open>back_testing\<close> is the one of numpy doubles: it is a parameter
    of the model, and nothing is assumed of its rounding.
\<close>

subsection \<open>Data\<close>

type_synonym symbol_t = string

text \<open>A number of a frame or a Series: a value, or NaN.\<close>

datatype cell = NaN | Val real

record transaction =
  symbol :: symbol_t
  time :: int
  transaction_price :: cell
  transaction_direction :: cell
  volume :: cell
  latest_position :: cell

type_synonym ledger = "transaction list"

type_synonym snapshot = "(symbol_t \<times> real) list"

type_synonym decision = "(symbol_t \<times> cell) list"

datatype error = TypeError | KeyError | IndexError | ZeroDivisionError

subsection \<open>Arithmetic on cells\<close>

text \<open>\<open>x != 0\<close> is true for NaN.\<close>

fun cne0 :: "cell \<Rightarrow> bool" where
  "cne0 (Val a) = (a \<noteq> 0)"
| "cne0 NaN = True"

text \<open>\<open>np.sign\<close> on a number.\<close>

definition np_sign :: "real \<Rightarrow> real" where
  "np_sign x = (if x < 0 then -1 else if x = 0 then 0 else 1)"

fun csign :: "cell \<Rightarrow> cell" where
  "csign (Val a) = Val (np_sign a)"
| "csign NaN = NaN"

fun cabs :: "cell \<Rightarrow> cell" where
  "cabs (Val a) = Val \<bar>a\<bar>"
| "cabs NaN = NaN"

fun cmul :: "cell \<Rightarrow> cell \<Rightarrow> cell" where
  "cmul (Val a) (Val b) = Val (a * b)"
| "cmul _ _ = NaN"

fun cadd :: "cell \<Rightarrow> cell \<Rightarrow> cell" where
  "cadd (Val a) (Val b) = Val (a + b)"
| "cadd _ _ = NaN"


subsection \<open>strategy\<close>

text \<open>The empty DataFrame with the six named columns: their names, and no row.\<close>

definition ledger_columns :: "string list" where
  "ledger_columns = [''symbol'', ''time'', ''transaction price'', ''transaction direction'',
     ''volume'', ''latest position'']"

text \<open>A table as \<open>strategy\<close> sees it: the column names and the rows.\<close>

type_synonym 'r frame = "string list \<times> 'r list"

definition empty_ledger :: "transaction frame" where
  "empty_ledger = (ledger_columns, [])"

definition strategy :: "transaction frame option \<Rightarrow> transaction frame" where
  "strategy pos = (case pos of None \<Rightarrow> empty_ledger | Some p \<Rightarrow> p)"

subsection \<open>Grouping and the two aggregates\<close>

definition groupby :: "ledger \<Rightarrow> (symbol_t \<times> transaction list) list" where
  "groupby pos =
     map (\<lambda>s. (s, filter (\<lambda>r. symbol r = s) pos)) (sort (remdups (map symbol pos)))"

text \<open>The mean of a column, NaN entries left out; NaN when nothing is left.\<close>

fun values_of :: "cell list \<Rightarrow> real list" where
  "values_of [] = []"
| "values_of (NaN # cs) = values_of cs"
| "values_of (Val x # cs) = x # values_of cs"

definition mean :: "cell list \<Rightarrow> cell" where
  "mean cs = (let xs = values_of cs
              in if xs = [] then NaN else Val (sum_list xs / real (length xs)))"

text \<open>
  Line 28 and 55: \<open>group_by.agg({'transaction price': 'mean'})\<close>, a row (symbol, mean) for
  every group.
\<close>

definition aggregate :: "ledger \<Rightarrow> (symbol_t \<times> cell) list" where
  "aggregate pos = map (\<lambda>(s, g). (s, mean (map transaction_price g))) (groupby pos)"

text \<open>\<open>max(group, column='time')\<close>: TypeError, whatever the group.\<close>

definition py_max :: "transaction list \<Rightarrow> error + transaction" where
  "py_max g = Inl TypeError"

text \<open>\<open>apply\<close> calls the function group after group and stops at the first raise.\<close>

fun groupby_apply :: "('g \<Rightarrow> error + 'r) \<Rightarrow> ('k \<times> 'g) list \<Rightarrow> error + ('k \<times> 'r) list" where
  "groupby_apply f [] = Inr []"
| "groupby_apply f ((k, g) # gs) =
     (case f g of
        Inl e \<Rightarrow> Inl e
      | Inr r \<Rightarrow> (case groupby_apply f gs of
                    Inl e \<Rightarrow> Inl e
                  | Inr rs \<Rightarrow> Inr ((k, r) # rs)))"

text \<open>Line 29, 56 and 85: \<open>group_by.apply(max, column='time')\<close>.\<close>

definition latest_rows :: "ledger \<Rightarrow> error + (symbol_t \<times> transaction) list" where
  "latest_rows pos = groupby_apply py_max (groupby pos)"

subsection \<open>Loops\<close>

text \<open>
  \<open>for x in xs: body\<close> on a state that the body changes in place: a raise ends the
  loop and leaves the state as the body has left it.
\<close>

fun for_each :: "'i list \<Rightarrow> ('i \<Rightarrow> 's \<Rightarrow> 's \<times> error option) \<Rightarrow> 's \<Rightarrow> 's \<times> error option" where
  "for_each [] body s = (s, None)"
| "for_each (i # is) body s =
     (case body i s of
        (s', Some e) \<Rightarrow> (s', Some e)
      | (s', None) \<Rightarrow> for_each is body s')"

subsection \<open>take\_profit and stop\_loss\<close>

definition empty_series :: "snapshot \<Rightarrow> decision" where
  "empty_series state = map (\<lambda>(k, v). (k, NaN)) state"

text \<open>
  The body of the loop of a rule. Its first statement, line 34 and 61, looks up the column
  \<open>symbol\<close> of the frame of the means and raises KeyError; the statements after it have
  no execution.
\<close>

definition rule_body :: "nat \<Rightarrow> decision \<Rightarrow> decision \<times> error option" where
  "rule_body i tp = (tp, Some KeyError)"

text \<open>
  A rule, statement by statement; \<open>take_profit\<close> and \<open>stop_loss\<close> differ in the
  comparisons after line 34 and 61 only. The ledger is returned with the result, so that
  the result says what the call leaves of it.
\<close>

definition run_rule :: "ledger \<Rightarrow> snapshot \<Rightarrow> ledger \<times> (error + decision)" where
  "run_rule pos state =
     (let average_transaction_price = aggregate pos in
      case latest_rows pos of
        Inl e \<Rightarrow> (pos, Inl e)
      | Inr latest \<Rightarrow>
          (case for_each [0..<length average_transaction_price] rule_body (empty_series state) of
             (tp, Some e) \<Rightarrow> (pos, Inl e)
           | (tp, None) \<Rightarrow> (pos, Inr tp)))"

definition take_profit :: "ledger \<Rightarrow> snapshot \<Rightarrow> ledger \<times> (error + decision)" where
  "take_profit pos state = run_rule pos state"

definition stop_loss :: "ledger \<Rightarrow> snapshot \<Rightarrow> ledger \<times> (error + decision)" where
  "stop_loss pos state = run_rule pos state"

subsection \<open>take\_action\<close>

text \<open>
  Lines 93 to 96, and 100 to 103: the four stores into the last row of the ledger, each
  reading the row as the stores before it left it.
\<close>

definition close_row :: "cell \<Rightarrow> real \<Rightarrow> transaction \<Rightarrow> transaction" where
  "close_row d price r =
     (let r2 = r\<lparr>transaction_price := Val price\<rparr>;
          r3 = r2\<lparr>transaction_direction := cmul (Val (- 1)) (csign (latest_position r2))\<rparr>;
          r4 = r3\<lparr>volume := cmul (latest_position r3) (cabs d)\<rparr>
      in r4\<lparr>latest_position := cmul (latest_position r4) (cadd (Val 1) d)\<rparr>)"

text \<open>
  One \<open>if pf != 0:\<close> block for the symbol \<open>k\<close>. The row that \<open>append\<close> returns is
  dropped, so the stores go to the last row the ledger already has.
\<close>

definition close_block :: "cell \<Rightarrow> symbol_t \<Rightarrow> snapshot \<Rightarrow> ledger \<Rightarrow> ledger \<times> error option" where
  "close_block d k state position =
     (if cne0 d then
        (case map_of state k of
           None \<Rightarrow> (position, Some KeyError)
         | Some price \<Rightarrow>
             (if position = [] then (position, Some IndexError)
              else (butlast position @ [close_row d price (last position)], None)))
      else (position, None))"

definition action_body :: "decision \<Rightarrow> decision \<Rightarrow> snapshot \<Rightarrow> symbol_t \<times> transaction \<Rightarrow> ledger \<Rightarrow>
    ledger \<times> error option" where
  "action_body profit loss state c position =
     (case map_of profit (fst c) of
        None \<Rightarrow> (position, Some KeyError)
      | Some pf \<Rightarrow>
          (case map_of loss (fst c) of
             None \<Rightarrow> (position, Some KeyError)
           | Some ls \<Rightarrow>
               (case close_block pf (fst c) state position of
                  (p1, Some e) \<Rightarrow> (p1, Some e)
                | (p1, None) \<Rightarrow> close_block ls (fst c) state p1)))"

definition take_action :: "decision \<Rightarrow> decision \<Rightarrow> ledger \<Rightarrow> snapshot \<Rightarrow> ledger \<times> error option" where
  "take_action profit loss position state =
     (case latest_rows position of
        Inl e \<Rightarrow> (position, Some e)
      | Inr current_pos \<Rightarrow> for_each current_pos (action_body profit loss state) position)"

subsection \<open>back\_testing\<close>


text \<open>\<open>all(tp == 0)\<close>: every entry is the number 0; a NaN entry is not.\<close>

definition all_zero :: "decision \<Rightarrow> bool" where
  "all_zero d = list_all (\<lambda>(k, v). v = Val 0) d"






subsection \<open>Example rows\<close>

definition row_long :: transaction where
  "row_long = \<lparr>symbol = ''AAPL'', time = 1, transaction_price = Val 100,
     transaction_direction = Val 1, volume = Val 10, latest_position = Val 10\<rparr>"

definition row_short :: transaction where
  "row_short = \<lparr>symbol = ''AAPL'', time = 1, transaction_price = Val 100,
     transaction_direction = Val (- 1), volume = Val 10, latest_position = Val (- 10)\<rparr>"

section \<open>Properties\<close>

subsection \<open>The aggregates\<close>

lemma groupby_Nil_iff: "groupby pos = [] \<longleftrightarrow> pos = []"
proof -
  have "sort (remdups (map symbol pos)) = [] \<longleftrightarrow> remdups (map symbol pos) = []"
    by (metis length_0_conv length_sort)
  then show ?thesis by (simp add: groupby_def)
qed

lemma latest_rows_Nil: "latest_rows [] = Inr []"
  by (simp add: latest_rows_def groupby_def)

lemma latest_rows_Cons: "latest_rows (r # pos) = Inl TypeError"
proof -
  have "groupby (r # pos) \<noteq> []" by (simp add: groupby_Nil_iff)
  then obtain k g gs where "groupby (r # pos) = (k, g) # gs"
    by (cases "groupby (r # pos)") auto
  then show ?thesis by (simp add: latest_rows_def py_max_def)
qed

lemma run_rule_result:
  "run_rule pos state = (pos, if pos = [] then Inr (empty_series state) else Inl TypeError)"
proof (cases pos)
  case Nil
  then show ?thesis
    by (simp add: run_rule_def latest_rows_Nil aggregate_def groupby_def)
next
  case (Cons r rs)
  then show ?thesis by (simp add: run_rule_def latest_rows_Cons)
qed

lemma take_action_result:
  "take_action profit loss position state
     = (position, if position = [] then None else Some TypeError)"
proof (cases position)
  case Nil
  then show ?thesis by (simp add: take_action_def latest_rows_Nil)
next
  case (Cons r rs)
  then show ?thesis by (simp add: take_action_def latest_rows_Cons)
qed

lemma example_symbols [simp]: "symbol row_long = ''AAPL''" "symbol row_short = ''AAPL''"
  by (simp_all add: row_long_def row_short_def)

subsection \<open>strategy\<close>

text \<open>
  Claim C10. \<open>strategy\<close> returns a position table that is not None as it is, and for None
  the empty ledger with exactly the six columns symbol, time, transaction price,
  transaction direction, volume, latest position.
\<close>

theorem strategy_identity:
  "strategy (Some p) = p \<and> strategy None = (ledger_columns, []) \<and> length ledger_columns = 6 \<and>
   ledger_columns = [''symbol'', ''time'', ''transaction price'', ''transaction direction'',
     ''volume'', ''latest position'']"
  by (simp add: strategy_def empty_ledger_def ledger_columns_def)

subsection \<open>The empty ledger\<close>

text \<open>
  Claim C5, at the empty ledger and the snapshot that prices AAPL at 100. The
  aggregates have no entry and \<open>take_action\<close> leaves the ledger empty, for any decisions
  and snapshot. Each rule returns the Series it created over the index of the snapshot,
  in which nothing was stored: the decision for AAPL is NaN, not 0, and the test
  \<open>all(tp == 0)\<close> of \<open>back_testing\<close> fails on it.
\<close>

theorem empty_ledger_decisions:
  "aggregate [] = [] \<and>
   take_profit [] [(''AAPL'', 100)] = ([], Inr [(''AAPL'', NaN)]) \<and>
   stop_loss [] [(''AAPL'', 100)] = ([], Inr [(''AAPL'', NaN)]) \<and>
   \<not> all_zero [(''AAPL'', NaN)] \<and>
   take_action profit loss [] state = ([], None)"
  by (simp add: aggregate_def groupby_def take_profit_def stop_loss_def run_rule_result
      empty_series_def take_action_result all_zero_def)

subsection \<open>The rules read the ledger\<close>


subsection \<open>take\_profit\<close>

text \<open>
  Claim C2, at the ledger of the one row \<open>row_long\<close> (AAPL, price 100, position 10) and
  the price 131, where the claim gives the decision -1 for \<open>r = 0.31\<close>: the call raises
  TypeError at line 29 and returns no decision. So does every call on a ledger that has a
  row.
\<close>

theorem take_profit_raises:
  "take_profit [row_long] [(''AAPL'', 131)] = ([row_long], Inl TypeError) \<and>
   take_profit (r # pos) state = (r # pos, Inl TypeError)"
  by (simp add: take_profit_def run_rule_result)

subsection \<open>stop\_loss\<close>

text \<open>
  Claim C3, at the ledger of \<open>row_long\<close> and the price 85, where the claim gives the
  decision -0.5 for \<open>r = -0.15\<close>: the call raises TypeError at line 56 and returns no
  decision. So does every call on a ledger that has a row.
\<close>

theorem stop_loss_raises:
  "stop_loss [row_long] [(''AAPL'', 85)] = ([row_long], Inl TypeError) \<and>
   stop_loss (r # pos) state = (r # pos, Inl TypeError)"
  by (simp add: stop_loss_def run_rule_result)

subsection \<open>Average price and latest position\<close>

text \<open>
  Claim C6, at the ledger of \<open>row_long\<close>: line 28 gives AAPL the mean 100 of its
  transaction prices, and line 29, which is to give its latest row, raises TypeError. So
  it does for every ledger that has a row: no latest position is computed.
\<close>

theorem aggregate_latest_raises:
  "aggregate [row_long] = [(''AAPL'', Val 100)] \<and>
   latest_rows [row_long] = Inl TypeError \<and>
   latest_rows (r # pos) = Inl TypeError"
  by (simp add: latest_rows_Cons aggregate_def groupby_def mean_def row_long_def)

subsection \<open>The two rules on one symbol\<close>


subsection \<open>take\_action\<close>

text \<open>
  Claim C1, at the ledger of \<open>row_long\<close>, the take-profit decision -1, the stop-loss
  decision 0 and the price 131, where the claim appends a row of price 131, direction -1,
  volume 10 and position 0: the call raises TypeError at line 85 and the ledger is as
  before. So it is for every ledger that has a row. The block of lines 92 to 96, which no
  call reaches, would store into the row the ledger has: at \<open>row_short\<close>, the decision 1
  and the price 60 it overwrites the row, with the volume -10.
\<close>

theorem take_action_raises:
  "take_action [(''AAPL'', Val (- 1))] [(''AAPL'', Val 0)] [row_long] [(''AAPL'', 131)]
     = ([row_long], Some TypeError) \<and>
   take_action profit loss (r # pos) state = (r # pos, Some TypeError) \<and>
   close_block (Val 1) ''AAPL'' [(''AAPL'', 60)] [row_short]
     = ([row_short\<lparr>transaction_price := Val 60, transaction_direction := Val 1,
                      volume := Val (- 10), latest_position := Val (- 20)\<rparr>], None)"
  by (simp add: take_action_result close_block_def close_row_def Let_def np_sign_def row_short_def)

text \<open>
  Claim C4, at the ledger of \<open>row_long\<close> with the take-profit decision -1 and the
  stop-loss decision -0.5, where the claim adds two rows: the call raises TypeError at
  line 85. No call of \<open>take_action\<close> changes the ledger, so none adds a row. The body
  of the loop, which no call reaches, would leave the ledger of one row with one row.
\<close>

theorem take_action_never_grows:
  "take_action [(''AAPL'', Val (- 1))] [(''AAPL'', Val (- 0.5))] [row_long] [(''AAPL'', 85)]
     = ([row_long], Some TypeError) \<and>
   fst (take_action profit loss position state) = position \<and>
   length (fst (action_body [(''AAPL'', Val (- 1))] [(''AAPL'', Val (- 0.5))] [(''AAPL'', 85)]
                  (''AAPL'', row_long) [row_long])) = 1"
  by (simp add: take_action_result action_body_def close_block_def)

subsection \<open>The profit of a backtest\<close>




end
